theory Spec2Isabelle
  imports Main
begin

section \<open>JavaScript values\<close>

text \<open>
  The wrappers of node-seal are JavaScript objects around handles of a WebAssembly
  library. A handle is the address of one native object; a wrapper is identified by the
  number of its closure (or class instance).
\<close>

type_synonym handle = nat
type_synonym wid = nat

text \<open>
  The values that cross the boundary: what a native call returns or throws, and what a
  wrapper passes to it. \<open>JError name message\<close> is an instance of \<open>Error\<close> (or of a subclass
  such as \<open>TypeError\<close>); \<open>JInstance h\<close> is the embind object of the native object \<open>h\<close>;
  \<open>JWrapper w\<close> is a wrapper object of this package; \<open>JEnum v\<close> is the value \<open>v\<close> of a native
  enumeration such as \<open>ComprModeType\<close>; \<open>JObject\<close> is any other ordinary object. Numbers
  are the integer exception pointers that emscripten throws (NaN and fractions are outside
  the model), and symbols and objects whose \<open>toString\<close> throws are outside it too.
\<close>

datatype jsval =
    JUndefined
  | JNull
  | JBool bool
  | JNum int
  | JStr string
  | JError string string
  | JInstance handle
  | JWrapper wid
  | JEnum string
  | JObject

text \<open>\<open>typeof v === 'number'\<close>, \<open>v instanceof Error\<close> and the truthiness of \<open>v\<close>.\<close>

fun is_number :: "jsval \<Rightarrow> bool" where
  "is_number (JNum n) = True"
| "is_number v = False"

fun is_Error :: "jsval \<Rightarrow> bool" where
  "is_Error (JError name msg) = True"
| "is_Error v = False"

fun truthy :: "jsval \<Rightarrow> bool" where
  "truthy JUndefined = False"
| "truthy JNull = False"
| "truthy (JBool b) = b"
| "truthy (JNum n) = (n \<noteq> 0)"
| "truthy (JStr s) = (s \<noteq> [])"
| "truthy (JError name msg) = True"
| "truthy (JInstance h) = True"
| "truthy (JWrapper w) = True"
| "truthy (JEnum v) = True"
| "truthy JObject = True"

text \<open>The decimal form of an integer, for \<open>String(v)\<close>.\<close>

definition digit_char :: "nat \<Rightarrow> char" where
  "digit_char d = ''0123456789'' ! d"

function show_nat :: "nat \<Rightarrow> string" where
  "show_nat n = (if n < 10 then [digit_char n] else show_nat (n div 10) @ [digit_char (n mod 10)])"
  by pat_completeness auto
termination
  by (relation "measure id") auto

definition show_int :: "int \<Rightarrow> string" where
  "show_int i = (if i < 0 then CHR ''-'' # show_nat (nat (- i)) else show_nat (nat i))"

text \<open>\<open>String(v)\<close>: an error prints as \<open>name: message\<close> (its name alone when the message is empty).\<close>

fun to_string :: "jsval \<Rightarrow> string" where
  "to_string JUndefined = ''undefined''"
| "to_string JNull = ''null''"
| "to_string (JBool b) = (if b then ''true'' else ''false'')"
| "to_string (JNum n) = show_int n"
| "to_string (JStr s) = s"
| "to_string (JError name msg) = (if msg = [] then name else name @ '': '' @ msg)"
| "to_string (JInstance h) = ''[object Object]''"
| "to_string (JWrapper w) = ''[object Object]''"
| "to_string (JEnum v) = ''[object Object]''"
| "to_string JObject = ''[object Object]''"

text \<open>\<open>new Error(v)\<close>: the message is \<open>String(v)\<close>, and is empty when \<open>v\<close> is undefined.\<close>

definition new_Error :: "jsval \<Rightarrow> jsval" where
  "new_Error v = JError ''Error'' (if v = JUndefined then [] else to_string v)"

text \<open>The \<open>TypeError\<close> of reading a property of \<open>null\<close> or \<open>undefined\<close>.\<close>

definition null_TypeError :: jsval where
  "null_TypeError = JError ''TypeError'' ''Cannot read properties of null''"

definition undefined_TypeError :: jsval where
  "undefined_TypeError = JError ''TypeError'' ''Cannot read properties of undefined''"

section \<open>The native library and the world\<close>

text \<open>
  The native heap maps each live handle to the state of its object; \<open>'s\<close> is the type of
  these states.
\<close>

type_synonym 's nheap = "handle \<Rightarrow> 's option"

text \<open>
  The WebAssembly library is not part of the sources; the wrappers take it as their
  \<open>library\<close> argument, and so does the model. \<open>getException\<close> is the message lookup,
  \<open>create c args heap\<close> is \<open>new library.c(...args)\<close> (it throws, or gives the state of
  the new object), and \<open>invoke m h args heap\<close> is the method \<open>m\<close> of the live object \<open>h\<close>
  (it throws or returns, and leaves a heap).
\<close>

record 's library =
  getException :: "jsval \<Rightarrow> string"
  create :: "string \<Rightarrow> jsval list \<Rightarrow> 's nheap \<Rightarrow> jsval + 's"
  invoke :: "string \<Rightarrow> handle \<Rightarrow> jsval list \<Rightarrow> 's nheap \<Rightarrow> (jsval + jsval) \<times> 's nheap"

text \<open>One native method call: the receiver, the method and the arguments.\<close>

datatype ncall = NCall handle string "jsval list"

text \<open>
  The world: the \<open>_instance\<close> slot of every wrapper (\<open>None\<close> is \<open>null\<close>), the native heap,
  the handles the native destructor was called on (in order), the native method calls
  made (in order), and the next fresh handle and wrapper.
\<close>

record 's world =
  slots :: "wid \<Rightarrow> handle option"
  live :: "'s nheap"
  released :: "handle list"
  calls :: "ncall list"
  next_handle :: handle
  next_wid :: wid

definition set_slot :: "wid \<Rightarrow> handle option \<Rightarrow> 's world \<Rightarrow> 's world" where
  "set_slot w v W = W\<lparr>slots := (slots W)(w := v)\<rparr>"

text \<open>The value of \<open>wrapper.instance\<close>.\<close>

fun instance_val :: "handle option \<Rightarrow> jsval" where
  "instance_val None = JNull"
| "instance_val (Some h) = JInstance h"

text \<open>
  Modelled from the spec: the native destructor (embind's \<open>delete()\<close> of an instance),
  which is not in the sources. The spec says that releasing cannot itself fail: the
  destructor removes the object from the native heap, and the model records the call.
\<close>

definition native_delete :: "handle \<Rightarrow> 's world \<Rightarrow> 's world" where
  "native_delete h W = W\<lparr>live := (live W)(h := None), released := released W @ [h]\<rparr>"

text \<open>A new native object with state \<open>s\<close>, at a fresh handle.\<close>

definition alloc :: "'s \<Rightarrow> 's world \<Rightarrow> handle \<times> 's world" where
  "alloc s W =
     (next_handle W, W\<lparr>live := (live W)(next_handle W \<mapsto> s), next_handle := Suc (next_handle W)\<rparr>)"

section \<open>Exception\<close>

text \<open>\<open>Exception.getHuman({ pointer })\<close> and \<open>Exception.safe({ error })\<close>.\<close>

definition getHuman :: "'s library \<Rightarrow> jsval \<Rightarrow> string" where
  "getHuman lib pointer = getException lib pointer"

definition safe :: "'s library \<Rightarrow> jsval \<Rightarrow> jsval" where
  "safe lib error =
     (if is_number error then new_Error (JStr (getHuman lib error))
      else if is_Error error then error
      else new_Error (if truthy error then error else JStr ''Unknown Error!''))"

text \<open>
  \<open>safe\<close> above is \<open>Exception.safe\<close> on an \<open>error\<close> that is a value of \<open>jsval\<close>, where it
  cannot throw. The whole method also meets values outside \<open>jsval\<close>: a \<open>Symbol\<close>, and an
  object that has no conversion to a primitive (such as \<open>Object.create(null)\<close>). Both are
  truthy, neither is a number nor an \<open>Error\<close>, and \<open>new Error(v)\<close> throws a \<open>TypeError\<close>
  when it converts them to a string.
\<close>

datatype raised =
    Plain jsval
  | SymbolValue
  | NoPrimitive

definition symbol_TypeError :: jsval where
  "symbol_TypeError = JError ''TypeError'' ''Cannot convert a Symbol value to a string''"

definition primitive_TypeError :: jsval where
  "primitive_TypeError = JError ''TypeError'' ''Cannot convert object to primitive value''"

definition destructure_TypeError :: jsval where
  "destructure_TypeError = JError ''TypeError'' ''Cannot destructure property error''"

text \<open>The body of \<open>safe\<close> on the \<open>error\<close> it has read: \<open>Inl\<close> is what it throws.\<close>

definition safe_body :: "'s library \<Rightarrow> raised \<Rightarrow> jsval + jsval" where
  "safe_body lib error =
     (case error of
        Plain v \<Rightarrow>
          (if is_number v then Inr (new_Error (JStr (getHuman lib v)))
           else if is_Error v then Inr v
           else Inr (new_Error (if truthy v then v else JStr ''Unknown Error!'')))
      | SymbolValue \<Rightarrow> Inl symbol_TypeError
      | NoPrimitive \<Rightarrow> Inl primitive_TypeError)"

text \<open>
  The argument of \<open>safe\<close>: an options object \<open>{ error }\<close>, or a value of \<open>jsval\<close> passed in
  its place (\<open>safe()\<close> passes \<open>undefined\<close>). The parameter pattern \<open>{ error }\<close> throws a
  \<open>TypeError\<close> on \<open>undefined\<close> and \<open>null\<close>; no other value of \<open>jsval\<close> has a property
  \<open>error\<close>, so that \<open>error\<close> is \<open>undefined\<close> then.
\<close>

datatype safe_arg =
    Options raised
  | Positional jsval

definition Exception_safe :: "'s library \<Rightarrow> safe_arg \<Rightarrow> jsval + jsval" where
  "Exception_safe lib arg =
     (case arg of
        Options error \<Rightarrow> safe_body lib error
      | Positional v \<Rightarrow>
          (if v = JUndefined \<or> v = JNull then Inl destructure_TypeError
           else safe_body lib (Plain JUndefined)))"


section \<open>The lifecycle of a wrapper\<close>

text \<open>
  \<open>RelinKeys.inject\<close>; \<open>PlainText.inject\<close>, \<open>Context.unsafeInject\<close>, \<open>Evaluator.inject\<close> and
  \<open>EncryptionParameterQualifiers.inject\<close> have the same body.
\<close>

definition RelinKeys_inject :: "wid \<Rightarrow> handle option \<Rightarrow> 's world \<Rightarrow> 's world" where
  "RelinKeys_inject w inst W =
     (let W1 = (case slots W w of
                  Some h \<Rightarrow> set_slot w None (native_delete h W)
                | None \<Rightarrow> W)
      in set_slot w inst W1)"

definition PlainText_inject :: "wid \<Rightarrow> handle option \<Rightarrow> 's world \<Rightarrow> 's world" where
  "PlainText_inject w inst W =
     (let W1 = (case slots W w of
                  Some h \<Rightarrow> set_slot w None (native_delete h W)
                | None \<Rightarrow> W)
      in set_slot w inst W1)"

definition Context_unsafeInject :: "wid \<Rightarrow> handle option \<Rightarrow> 's world \<Rightarrow> 's world" where
  "Context_unsafeInject w inst W =
     (let W1 = (case slots W w of
                  Some h \<Rightarrow> set_slot w None (native_delete h W)
                | None \<Rightarrow> W)
      in set_slot w inst W1)"

definition Evaluator_inject :: "wid \<Rightarrow> handle option \<Rightarrow> 's world \<Rightarrow> 's world" where
  "Evaluator_inject w inst W =
     (let W1 = (case slots W w of
                  Some h \<Rightarrow> set_slot w None (native_delete h W)
                | None \<Rightarrow> W)
      in set_slot w inst W1)"

definition EncryptionParameterQualifiers_inject ::
  "wid \<Rightarrow> handle option \<Rightarrow> 's world \<Rightarrow> 's world" where
  "EncryptionParameterQualifiers_inject w inst W =
     (let W1 = (case slots W w of
                  Some h \<Rightarrow> set_slot w None (native_delete h W)
                | None \<Rightarrow> W)
      in set_slot w inst W1)"

text \<open>
  \<open>PublicKey.inject\<close>: the statement \<open>delete this._instance\<close> is the \<open>delete\<close> operator of
  JavaScript. It removes the property from the wrapper and calls nothing on the native
  object.
\<close>

definition PublicKey_inject :: "wid \<Rightarrow> handle option \<Rightarrow> 's world \<Rightarrow> 's world" where
  "PublicKey_inject w inst W =
     (let W1 = (case slots W w of
                  Some h \<Rightarrow> set_slot w None W
                | None \<Rightarrow> W)
      in set_slot w inst W1)"

text \<open>The wrapper kinds whose \<open>inject\<close> stores the instance it is given.\<close>

datatype kind =
    RelinKeys
  | PublicKey
  | PlainText
  | Context
  | Evaluator
  | EncryptionParameterQualifiers

fun inject :: "kind \<Rightarrow> wid \<Rightarrow> handle option \<Rightarrow> 's world \<Rightarrow> 's world" where
  "inject RelinKeys = RelinKeys_inject"
| "inject PublicKey = PublicKey_inject"
| "inject PlainText = PlainText_inject"
| "inject Context = Context_unsafeInject"
| "inject Evaluator = Evaluator_inject"
| "inject EncryptionParameterQualifiers = EncryptionParameterQualifiers_inject"

text \<open>
  \<open>ParmsIdType.inject\<close> copies: it releases the held instance, constructs a new native
  object from the given one, and deletes the given one.
\<close>

definition ParmsIdType_inject ::
  "'s library \<Rightarrow> wid \<Rightarrow> handle option \<Rightarrow> 's world \<Rightarrow> (jsval + unit) \<times> 's world" where
  "ParmsIdType_inject lib w inst W =
     (let W1 = (case slots W w of
                  Some h \<Rightarrow> set_slot w None (native_delete h W)
                | None \<Rightarrow> W)
      in case create lib ''ParmsIdType'' [instance_val inst] (live W1) of
           Inl e \<Rightarrow> (Inl e, W1)
         | Inr s \<Rightarrow>
             (let (h', W2) = alloc s W1;
                  W3 = set_slot w (Some h') W2
              in case inst of
                   None \<Rightarrow> (Inl null_TypeError, W3)
                 | Some h \<Rightarrow> (Inr (), native_delete h W3)))"

text \<open>
  \<open>delete()\<close> of \<open>ParmsIdType\<close>, \<open>Context\<close>, \<open>Evaluator\<close> and
  \<open>EncryptionParameterQualifiers\<close>. \<open>RelinKeys\<close>, \<open>PublicKey\<close> and \<open>PlainText\<close> have no such
  method in the sources.
\<close>

definition ParmsIdType_delete :: "wid \<Rightarrow> 's world \<Rightarrow> 's world" where
  "ParmsIdType_delete w W =
     (case slots W w of
        Some h \<Rightarrow> set_slot w None (native_delete h W)
      | None \<Rightarrow> W)"

definition Context_delete :: "wid \<Rightarrow> 's world \<Rightarrow> 's world" where
  "Context_delete w W =
     (case slots W w of
        Some h \<Rightarrow> set_slot w None (native_delete h W)
      | None \<Rightarrow> W)"

definition Evaluator_delete :: "wid \<Rightarrow> 's world \<Rightarrow> 's world" where
  "Evaluator_delete w W =
     (case slots W w of
        Some h \<Rightarrow> set_slot w None (native_delete h W)
      | None \<Rightarrow> W)"

definition EncryptionParameterQualifiers_delete :: "wid \<Rightarrow> 's world \<Rightarrow> 's world" where
  "EncryptionParameterQualifiers_delete w W =
     (case slots W w of
        Some h \<Rightarrow> set_slot w None (native_delete h W)
      | None \<Rightarrow> W)"

text \<open>The wrapper kinds that have a \<open>delete\<close> method, and the method of each.\<close>

datatype rkind =
    RParmsIdType
  | RContext
  | REvaluator
  | REncryptionParameterQualifiers

fun release :: "rkind \<Rightarrow> wid \<Rightarrow> 's world \<Rightarrow> 's world" where
  "release RParmsIdType = ParmsIdType_delete"
| "release RContext = Context_delete"
| "release REvaluator = Evaluator_delete"
| "release REncryptionParameterQualifiers = EncryptionParameterQualifiers_delete"

section \<open>Domain operations\<close>

text \<open>
  \<open>_instance.m(...args)\<close>: reading the method of a \<open>null\<close> instance throws a \<open>TypeError\<close>
  before any argument is looked at; otherwise the native method runs and the call is
  recorded.
\<close>

definition native_call ::
  "'s library \<Rightarrow> handle \<Rightarrow> string \<Rightarrow> jsval list \<Rightarrow> 's world \<Rightarrow> (jsval + jsval) \<times> 's world" where
  "native_call lib h m args W =
     (let (r, H) = invoke lib m h args (live W)
      in (r, W\<lparr>live := H, calls := calls W @ [NCall h m args]\<rparr>))"

definition method_call ::
  "'s library \<Rightarrow> handle option \<Rightarrow> string \<Rightarrow> jsval list \<Rightarrow> 's world \<Rightarrow> (jsval + jsval) \<times> 's world" where
  "method_call lib inst m args W =
     (case inst of
        None \<Rightarrow> (Inl null_TypeError, W)
      | Some h \<Rightarrow> native_call lib h m args W)"

text \<open>\<open>try { ... } catch (e) { throw normalizer(e) }\<close> around a computation.\<close>

definition catch_with ::
  "(jsval \<Rightarrow> jsval) \<Rightarrow> (jsval + 'a) \<times> 's world \<Rightarrow> (jsval + 'a) \<times> 's world" where
  "catch_with normalizer rW =
     (case fst rW of
        Inl e \<Rightarrow> (Inl (normalizer e), snd rW)
      | Inr v \<Rightarrow> (Inr v, snd rW))"

text \<open>A statement that is followed by \<open>return v\<close>.\<close>

definition then_return ::
  "jsval \<Rightarrow> (jsval + jsval) \<times> 's world \<Rightarrow> (jsval + jsval) \<times> 's world" where
  "then_return v rW =
     (case fst rW of
        Inl e \<Rightarrow> (Inl e, snd rW)
      | Inr r \<Rightarrow> (Inr v, snd rW))"

text \<open>\<open>library.ComprModeType.deflate\<close>, the default compression of \<open>save\<close>.\<close>

definition ComprModeType_deflate :: jsval where
  "ComprModeType_deflate = JEnum ''deflate''"

text \<open>
  \<open>RelinKeys.save({ compression = this._ComprModeType.deflate } = {})\<close> and
  \<open>RelinKeys.load({ context, encoded })\<close>; an omitted \<open>compression\<close> is \<open>JUndefined\<close>, and
  \<open>context\<close> is a wrapper.
\<close>

definition RelinKeys_save ::
  "'s library \<Rightarrow> wid \<Rightarrow> jsval \<Rightarrow> 's world \<Rightarrow> (jsval + jsval) \<times> 's world" where
  "RelinKeys_save lib w compression W =
     method_call lib (slots W w) ''saveToString''
       [if compression = JUndefined then ComprModeType_deflate else compression] W"






definition PlainText_setZero :: "'s library \<Rightarrow> wid \<Rightarrow> 's world \<Rightarrow> (jsval + jsval) \<times> 's world" where
  "PlainText_setZero lib w W = method_call lib (slots W w) ''setZero'' [] W"


text \<open>The getters \<open>Context.parametersSet\<close> and \<open>Context.usingKeyswitching\<close>: no handler.\<close>

definition Context_parametersSet ::
  "'s library \<Rightarrow> wid \<Rightarrow> 's world \<Rightarrow> (jsval + jsval) \<times> 's world" where
  "Context_parametersSet lib w W = method_call lib (slots W w) ''parametersSet'' [] W"

definition Context_usingKeyswitching ::
  "'s library \<Rightarrow> wid \<Rightarrow> 's world \<Rightarrow> (jsval + jsval) \<times> 's world" where
  "Context_usingKeyswitching lib w W = method_call lib (slots W w) ''usingKeyswitching'' [] W"

text \<open>
  The getter \<open>EncryptionParameterQualifiers.parametersSet\<close> reads a property of the native
  object and hands whatever is thrown to \<open>Exception.safe({ error: e })\<close>.
\<close>

definition EncryptionParameterQualifiers_parametersSet ::
  "'s library \<Rightarrow> wid \<Rightarrow> 's world \<Rightarrow> (jsval + jsval) \<times> 's world" where
  "EncryptionParameterQualifiers_parametersSet lib w W =
     catch_with (safe lib) (method_call lib (slots W w) ''parametersSet'' [] W)"

text \<open>
  The outcome of a call fails with an error of the given name; and the handles held by
  the wrappers of a world, which are exclusive when no handle is held twice.
\<close>

definition fails_with :: "string \<Rightarrow> (jsval + 'a) \<Rightarrow> bool" where
  "fails_with n r =
     (case r of
        Inl e \<Rightarrow> (case e of JError name msg \<Rightarrow> name = n | _ \<Rightarrow> False)
      | Inr v \<Rightarrow> False)"

definition held :: "'s world \<Rightarrow> handle list" where
  "held W = List.map_filter (slots W) [0..<next_wid W]"

definition exclusive :: "'s world \<Rightarrow> bool" where
  "exclusive W = distinct (held W)"

section \<open>Evaluator\<close>

text \<open>
  Modelled from the spec: the factories \<open>CipherText()\<close> and \<open>PlainText()\<close>, which
  \<open>Evaluator\<close> receives as dependencies and which are not in the sources. The spec's
  \<open>construct\<close> allocates a fresh native handle with the native constructor of the kind,
  for a new wrapper, and fails with what the native layer signals.
\<close>

definition new_wrapper :: "'s library \<Rightarrow> string \<Rightarrow> 's world \<Rightarrow> (jsval + wid) \<times> 's world" where
  "new_wrapper lib cname W =
     (case create lib cname [] (live W) of
        Inl e \<Rightarrow> (Inl e, W)
      | Inr s \<Rightarrow>
          (let (h, W1) = alloc s W;
               w = next_wid W1
           in (Inr w, set_slot w (Some h) (W1\<lparr>next_wid := Suc w\<rparr>))))"

definition CipherText_new :: "'s library \<Rightarrow> 's world \<Rightarrow> (jsval + wid) \<times> 's world" where
  "CipherText_new lib W = new_wrapper lib ''Ciphertext'' W"

definition PlainText_new :: "'s library \<Rightarrow> 's world \<Rightarrow> (jsval + wid) \<times> 's world" where
  "PlainText_new lib W = new_wrapper lib ''Plaintext'' W"

text \<open>\<open>const temp = ...\<close> followed by the rest of the block; a throwing factory ends it.\<close>

definition with_temp ::
  "(jsval + wid) \<times> 's world \<Rightarrow> (wid \<Rightarrow> 's world \<Rightarrow> (jsval + jsval) \<times> 's world) \<Rightarrow>
   (jsval + jsval) \<times> 's world" where
  "with_temp rW body =
     (case fst rW of
        Inl e \<Rightarrow> (Inl e, snd rW)
      | Inr temp \<Rightarrow> body temp (snd rW))"

text \<open>
  The methods of the \<open>Evaluator\<close> that takes its dependencies as arguments. \<open>exc_safe\<close> is
  the \<open>safe\<close> of the \<open>Exception\<close> it was given, \<open>ev\<close> is the evaluator, the operands are
  wrappers, and an omitted \<open>destination\<close> is \<open>None\<close>.
\<close>

definition Evaluator_negate ::
  "'s library \<Rightarrow> (jsval \<Rightarrow> jsval) \<Rightarrow> wid \<Rightarrow> wid \<Rightarrow> wid option \<Rightarrow> 's world \<Rightarrow>
   (jsval + jsval) \<times> 's world" where
  "Evaluator_negate lib exc_safe ev encrypted destination W =
     catch_with exc_safe
       (case destination of
          Some d \<Rightarrow>
            then_return JUndefined
              (method_call lib (slots W ev) ''negate''
                 [instance_val (slots W encrypted), instance_val (slots W d)] W)
        | None \<Rightarrow>
            with_temp (CipherText_new lib W) (\<lambda>temp W1.
              then_return (JWrapper temp)
                (method_call lib (slots W1 ev) ''negate''
                   [instance_val (slots W1 encrypted), instance_val (slots W1 temp)] W1)))"

definition Evaluator_add ::
  "'s library \<Rightarrow> (jsval \<Rightarrow> jsval) \<Rightarrow> wid \<Rightarrow> wid \<Rightarrow> wid \<Rightarrow> wid option \<Rightarrow> 's world \<Rightarrow>
   (jsval + jsval) \<times> 's world" where
  "Evaluator_add lib exc_safe ev a b destination W =
     catch_with exc_safe
       (case destination of
          Some d \<Rightarrow>
            then_return JUndefined
              (method_call lib (slots W ev) ''add''
                 [instance_val (slots W a), instance_val (slots W b), instance_val (slots W d)] W)
        | None \<Rightarrow>
            with_temp (CipherText_new lib W) (\<lambda>temp W1.
              then_return (JWrapper temp)
                (method_call lib (slots W1 ev) ''add''
                   [instance_val (slots W1 a), instance_val (slots W1 b),
                    instance_val (slots W1 temp)] W1)))"

definition Evaluator_sub ::
  "'s library \<Rightarrow> (jsval \<Rightarrow> jsval) \<Rightarrow> wid \<Rightarrow> wid \<Rightarrow> wid \<Rightarrow> wid option \<Rightarrow> 's world \<Rightarrow>
   (jsval + jsval) \<times> 's world" where
  "Evaluator_sub lib exc_safe ev a b destination W =
     catch_with exc_safe
       (case destination of
          Some d \<Rightarrow>
            then_return JUndefined
              (method_call lib (slots W ev) ''sub''
                 [instance_val (slots W a), instance_val (slots W b), instance_val (slots W d)] W)
        | None \<Rightarrow>
            with_temp (CipherText_new lib W) (\<lambda>temp W1.
              then_return (JWrapper temp)
                (method_call lib (slots W1 ev) ''sub''
                   [instance_val (slots W1 a), instance_val (slots W1 b),
                    instance_val (slots W1 temp)] W1)))"

text \<open>
  \<open>plainModSwitchToNext\<close> allocates a \<open>PlainText\<close>.
\<close>

definition Evaluator_plainModSwitchToNext ::
  "'s library \<Rightarrow> (jsval \<Rightarrow> jsval) \<Rightarrow> wid \<Rightarrow> wid \<Rightarrow> wid option \<Rightarrow> 's world \<Rightarrow>
   (jsval + jsval) \<times> 's world" where
  "Evaluator_plainModSwitchToNext lib exc_safe ev plain destination W =
     catch_with exc_safe
       (case destination of
          Some d \<Rightarrow>
            then_return JUndefined
              (method_call lib (slots W ev) ''plainModSwitchToNext''
                 [instance_val (slots W plain), instance_val (slots W d)] W)
        | None \<Rightarrow>
            with_temp (PlainText_new lib W) (\<lambda>temp W1.
              then_return (JWrapper temp)
                (method_call lib (slots W1 ev) ''plainModSwitchToNext''
                   [instance_val (slots W1 plain), instance_val (slots W1 temp)] W1)))"

text \<open>
  \<open>addPlain\<close>: without a destination the call reads \<open>destination.instance\<close> all the same.
  The method of a \<open>null\<close> evaluator instance is read first, the arguments after it, and
  \<open>destination\<close> is \<open>undefined\<close> there.
\<close>

definition Evaluator_addPlain ::
  "'s library \<Rightarrow> (jsval \<Rightarrow> jsval) \<Rightarrow> wid \<Rightarrow> wid \<Rightarrow> wid \<Rightarrow> wid option \<Rightarrow> 's world \<Rightarrow>
   (jsval + jsval) \<times> 's world" where
  "Evaluator_addPlain lib exc_safe ev encrypted plain destination W =
     catch_with exc_safe
       (case destination of
          Some d \<Rightarrow>
            then_return JUndefined
              (method_call lib (slots W ev) ''addPlain''
                 [instance_val (slots W encrypted), instance_val (slots W plain),
                  instance_val (slots W d)] W)
        | None \<Rightarrow>
            with_temp (CipherText_new lib W) (\<lambda>temp W1.
              (case slots W1 ev of
                 None \<Rightarrow> (Inl null_TypeError, W1)
               | Some h \<Rightarrow> (Inl undefined_TypeError, W1))))"

definition Evaluator_subPlain ::
  "'s library \<Rightarrow> (jsval \<Rightarrow> jsval) \<Rightarrow> wid \<Rightarrow> wid \<Rightarrow> wid \<Rightarrow> wid option \<Rightarrow> 's world \<Rightarrow>
   (jsval + jsval) \<times> 's world" where
  "Evaluator_subPlain lib exc_safe ev encrypted plain destination W =
     catch_with exc_safe
       (case destination of
          Some d \<Rightarrow>
            then_return JUndefined
              (method_call lib (slots W ev) ''subPlain''
                 [instance_val (slots W encrypted), instance_val (slots W plain),
                  instance_val (slots W d)] W)
        | None \<Rightarrow>
            with_temp (CipherText_new lib W) (\<lambda>temp W1.
              then_return (JWrapper temp)
                (method_call lib (slots W1 ev) ''subPlain''
                   [instance_val (slots W1 encrypted), instance_val (slots W1 plain),
                    instance_val (slots W1 temp)] W1)))"

definition Evaluator_cipherTransformToNtt ::
  "'s library \<Rightarrow> (jsval \<Rightarrow> jsval) \<Rightarrow> wid \<Rightarrow> wid \<Rightarrow> wid option \<Rightarrow> 's world \<Rightarrow>
   (jsval + jsval) \<times> 's world" where
  "Evaluator_cipherTransformToNtt lib exc_safe ev encrypted destinationNtt W =
     catch_with exc_safe
       (case destinationNtt of
          Some d \<Rightarrow>
            then_return JUndefined
              (method_call lib (slots W ev) ''cipherTransformToNtt''
                 [instance_val (slots W encrypted), instance_val (slots W d)] W)
        | None \<Rightarrow>
            with_temp (CipherText_new lib W) (\<lambda>temp W1.
              then_return (JWrapper temp)
                (method_call lib (slots W1 ev) ''cipherTransformToNtt''
                   [instance_val (slots W1 encrypted), instance_val (slots W1 temp)] W1)))"

text \<open>
  \<open>cipherTransformFromNtt\<close>: without a destination the native method called is
  \<open>cipherTransformToNtt\<close>.
\<close>

definition Evaluator_cipherTransformFromNtt ::
  "'s library \<Rightarrow> (jsval \<Rightarrow> jsval) \<Rightarrow> wid \<Rightarrow> wid \<Rightarrow> wid option \<Rightarrow> 's world \<Rightarrow>
   (jsval + jsval) \<times> 's world" where
  "Evaluator_cipherTransformFromNtt lib exc_safe ev encryptedNtt destination W =
     catch_with exc_safe
       (case destination of
          Some d \<Rightarrow>
            then_return JUndefined
              (method_call lib (slots W ev) ''cipherTransformFromNtt''
                 [instance_val (slots W encryptedNtt), instance_val (slots W d)] W)
        | None \<Rightarrow>
            with_temp (CipherText_new lib W) (\<lambda>temp W1.
              then_return (JWrapper temp)
                (method_call lib (slots W1 ev) ''cipherTransformToNtt''
                   [instance_val (slots W1 encryptedNtt), instance_val (slots W1 temp)] W1)))"

text \<open>
  The \<open>Evaluator\<close> that takes an options object imports \<open>Exception\<close> and builds its error
  in place. It calls \<open>getHuman(e)\<close> with the number itself, where \<open>getHuman\<close> reads the
  property \<open>pointer\<close> of its argument: a number has no such property.
\<close>

fun pointer_of :: "jsval \<Rightarrow> jsval" where
  "pointer_of v = JUndefined"

fun message_of :: "jsval \<Rightarrow> jsval" where
  "message_of (JError name msg) = JStr msg"
| "message_of v = JUndefined"

definition inline_Error :: "'s library \<Rightarrow> jsval \<Rightarrow> jsval" where
  "inline_Error lib e =
     new_Error
       (if is_number e then JStr (getHuman lib (pointer_of e))
        else if is_Error e then message_of e
        else e)"

definition Evaluator_negate_options ::
  "'s library \<Rightarrow> wid \<Rightarrow> wid \<Rightarrow> wid \<Rightarrow> 's world \<Rightarrow> (jsval + jsval) \<times> 's world" where
  "Evaluator_negate_options lib ev encrypted destination W =
     catch_with (inline_Error lib)
       (then_return JUndefined
          (method_call lib (slots W ev) ''negate''
             [instance_val (slots W encrypted), instance_val (slots W destination)] W))"

text \<open>
  What a method without a destination is documented to do: allocate a wrapper, run the
  form with that wrapper as destination, and return the wrapper. A throwing factory is
  caught by the handler of the method.
\<close>

definition into_fresh ::
  "(jsval + wid) \<times> 's world \<Rightarrow> (wid option \<Rightarrow> 's world \<Rightarrow> (jsval + jsval) \<times> 's world) \<Rightarrow>
   (jsval \<Rightarrow> jsval) \<Rightarrow> (jsval + jsval) \<times> 's world" where
  "into_fresh rW op exc_safe =
     (case fst rW of
        Inl e \<Rightarrow> (Inl (exc_safe e), snd rW)
      | Inr temp \<Rightarrow> then_return (JWrapper temp) (op (Some temp) (snd rW)))"

section \<open>The native codec\<close>

text \<open>
  Modelled from the spec: the native \<open>saveToString\<close> and \<open>loadFromString\<close>, which are not
  in the sources. The spec describes the encoding as a compression-mode tag followed by
  a length-prefixed payload; a load parses the tag and the payload, reconstructs the
  native state in the existing object, and checks its \<open>ParmsId\<close> against the context.
  The native layer reports failures on a numeric channel. Here the length prefix is
  eight little-endian bytes, a \<open>ParmsId\<close> is four 64-bit words (32 bytes) at the head of
  the payload, and the compaction of the payload is not modelled: it is stored as it is
  under every mode. A newly constructed object has the zero \<open>ParmsId\<close> and no data; the
  sources say of \<open>PlainText.parmsId\<close> that it remains zero unless the plaintext is in NTT
  form, so the zero \<open>ParmsId\<close> is compatible with every context.
\<close>

datatype nstate =
    NContext "string list"
  | NObject string string

fun le_bytes :: "nat \<Rightarrow> nat \<Rightarrow> string" where
  "le_bytes 0 n = []"
| "le_bytes (Suc k) n = char_of (n mod 256) # le_bytes k (n div 256)"

fun le_value :: "string \<Rightarrow> nat" where
  "le_value [] = 0"
| "le_value (c # cs) = of_char c + 256 * le_value cs"

definition parms_id_zero :: string where
  "parms_id_zero = replicate 32 (CHR 0x00)"

definition compatible :: "string list \<Rightarrow> string \<Rightarrow> bool" where
  "compatible chain p = (p = parms_id_zero \<or> p \<in> set chain)"

definition compr_tag :: "jsval \<Rightarrow> char option" where
  "compr_tag mode =
     (if mode = JEnum ''none'' then Some CHR ''N''
      else if mode = JEnum ''deflate'' then Some CHR ''D''
      else None)"

definition encode :: "char \<Rightarrow> string \<Rightarrow> string" where
  "encode tag payload = tag # le_bytes 8 (length payload) @ payload"

definition decode :: "string \<Rightarrow> string option" where
  "decode enc =
     (case enc of
        [] \<Rightarrow> None
      | tag # rest \<Rightarrow>
          if tag \<noteq> CHR ''N'' \<and> tag \<noteq> CHR ''D'' then None
          else if length rest < 8 then None
          else if le_value (take 8 rest) \<noteq> length (drop 8 rest) then None
          else if length (drop 8 rest) < 32 then None
          else Some (drop 8 rest))"

text \<open>The numeric signals of the native layer.\<close>

definition malformed_encoding :: jsval where
  "malformed_encoding = JNum 1"

definition incompatible_context :: jsval where
  "incompatible_context = JNum 2"

definition unsupported_mode :: jsval where
  "unsupported_mode = JNum 3"

definition invalid_argument :: jsval where
  "invalid_argument = JNum 4"

text \<open>
  \<open>saveToString(mode)\<close> of an object with the given state; without an argument the mode
  is the default, \<open>deflate\<close>.
\<close>

fun spec_saveToString :: "nstate option \<Rightarrow> jsval list \<Rightarrow> jsval + jsval" where
  "spec_saveToString (Some (NObject p d)) [] = Inr (JStr (encode CHR ''D'' (p @ d)))"
| "spec_saveToString (Some (NObject p d)) [mode] =
     (case compr_tag mode of
        None \<Rightarrow> Inl unsupported_mode
      | Some tag \<Rightarrow> Inr (JStr (encode tag (p @ d))))"
| "spec_saveToString s args = Inl invalid_argument"

text \<open>
  \<open>loadFromString(context, encoded)\<close>: the state to store in the receiver, or the signal.
\<close>

definition spec_parse :: "string list \<Rightarrow> string \<Rightarrow> jsval + nstate" where
  "spec_parse chain enc =
     (case decode enc of
        None \<Rightarrow> Inl malformed_encoding
      | Some payload \<Rightarrow>
          if compatible chain (take 32 payload)
          then Inr (NObject (take 32 payload) (drop 32 payload))
          else Inl incompatible_context)"

fun spec_loadFromString :: "nstate nheap \<Rightarrow> nstate option \<Rightarrow> jsval list \<Rightarrow> jsval + nstate" where
  "spec_loadFromString H (Some (NObject p d)) [JInstance c, JStr enc] =
     (case H c of
        Some (NContext chain) \<Rightarrow> spec_parse chain enc
      | _ \<Rightarrow> Inl invalid_argument)"
| "spec_loadFromString H s args = Inl invalid_argument"

text \<open>
  The native methods of an object: \<open>saveToString\<close>, \<open>loadFromString\<close>, which stores the
  parsed state in the receiver, and of a plaintext \<open>setZero\<close>, which sets every byte of
  the data to zero, and \<open>isZero\<close>, which tells whether every byte of the data is zero.
\<close>

definition spec_invoke ::
  "string \<Rightarrow> handle \<Rightarrow> jsval list \<Rightarrow> nstate nheap \<Rightarrow> (jsval + jsval) \<times> nstate nheap" where
  "spec_invoke m h args H =
     (if m = ''saveToString'' then (spec_saveToString (H h) args, H)
      else if m = ''loadFromString'' then
        (case spec_loadFromString H (H h) args of
           Inl e \<Rightarrow> (Inl e, H)
         | Inr s \<Rightarrow> (Inr JUndefined, H(h \<mapsto> s)))
      else if m = ''setZero'' then
        (case H h of
           Some (NObject p d) \<Rightarrow> (Inr JUndefined, H(h \<mapsto> NObject p (replicate (length d) (CHR 0x00))))
         | _ \<Rightarrow> (Inl invalid_argument, H))
      else if m = ''isZero'' then
        (case H h of
           Some (NObject p d) \<Rightarrow> (Inr (JBool (list_all (\<lambda>c. c = CHR 0x00) d)), H)
         | _ \<Rightarrow> (Inl invalid_argument, H))
      else (Inl invalid_argument, H))"

definition spec_lib :: "nstate library" where
  "spec_lib = \<lparr>getException = (\<lambda>p. ''exception '' @ to_string p),
              create = (\<lambda>c args H. Inr (NObject parms_id_zero [])),
              invoke = spec_invoke\<rparr>"


text \<open>A native method reads nothing but its receiver.\<close>

definition reads_receiver :: "'s library \<Rightarrow> string \<Rightarrow> bool" where
  "reads_receiver lib m =
     (\<forall>h args H H'. H h = H' h \<longrightarrow> fst (invoke lib m h args H) = fst (invoke lib m h args H'))"

section \<open>The move operation\<close>

text \<open>
  Modelled from the spec: \<open>move(dst, src)\<close>, which only the tests of \<open>GaloisKeys\<close> call and
  which no wrapper of the sources defines. The spec says that it transfers the handle of
  \<open>src\<close> into \<open>dst\<close>, that it is \<open>inject(dst, take(src))\<close>, that it leaves \<open>src\<close> holding no
  handle, and that it fails with \<open>InvalidStateError\<close> if \<open>src\<close> holds no handle.
\<close>

definition take_handle :: "wid \<Rightarrow> 's world \<Rightarrow> handle option \<times> 's world" where
  "take_handle w W = (slots W w, set_slot w None W)"

definition InvalidStateError :: jsval where
  "InvalidStateError = JError ''InvalidStateError'' ''the source holds no handle''"

definition move :: "kind \<Rightarrow> wid \<Rightarrow> wid \<Rightarrow> 's world \<Rightarrow> (jsval + jsval) \<times> 's world" where
  "move k dst src W =
     (case slots W src of
        None \<Rightarrow> (Inl InvalidStateError, W)
      | Some h \<Rightarrow>
          (let (inst, W1) = take_handle src W
           in (Inr JUndefined, inject k dst inst W1)))"

section \<open>Example worlds\<close>

text \<open>
  A library whose objects have a number as their state, and a world with two wrappers:
  wrapper 0 holds handle 1 and wrapper 1 holds handle 2. Handle 3 is a live native object
  that no wrapper holds yet (the result of a native call).
\<close>

definition lib0 :: "nat library" where
  "lib0 = \<lparr>getException = (\<lambda>p. ''msg: '' @ to_string p),
          create = (\<lambda>c args H. Inr 0),
          invoke = (\<lambda>m h args H. (Inr JUndefined, H))\<rparr>"

definition W0 :: "nat world" where
  "W0 = \<lparr>slots = (\<lambda>w. None)(0 := Some 1, 1 := Some 2),
        live = (\<lambda>h. None)(1 \<mapsto> 10, 2 \<mapsto> 20, 3 \<mapsto> 30),
        released = [],
        calls = [],
        next_handle = 4,
        next_wid = 2\<rparr>"

text \<open>
  The example world with a third wrapper, an \<open>Evaluator\<close> that holds handle 3; and a
  library whose every method throws the exception pointer 5.
\<close>

definition W1 :: "nat world" where
  "W1 = \<lparr>slots = (\<lambda>w. None)(0 := Some 1, 1 := Some 2, 2 := Some 3),
        live = (\<lambda>h. None)(1 \<mapsto> 10, 2 \<mapsto> 20, 3 \<mapsto> 30),
        released = [],
        calls = [],
        next_handle = 4,
        next_wid = 3\<rparr>"

definition lib5 :: "nat library" where
  "lib5 = \<lparr>getException = (\<lambda>p. ''exception '' @ to_string p),
          create = (\<lambda>c args H. Inr 0),
          invoke = (\<lambda>m h args H. (Inl (JNum 5), H))\<rparr>"

text \<open>
  A world of the modelled codec: wrapper 0 is a \<open>Context\<close> (handle 1) whose chain has one
  \<open>ParmsId\<close>, wrapper 1 holds a key set (handle 2) under that \<open>ParmsId\<close> with the data
  \<open>key\<close>, and wrappers 2 and 3 hold newly constructed, empty objects (handles 3 and 4).
\<close>

definition pid0 :: string where
  "pid0 = replicate 32 CHR ''p''"

definition W2 :: "nstate world" where
  "W2 = \<lparr>slots = (\<lambda>w. None)(0 := Some 1, 1 := Some 2, 2 := Some 3, 3 := Some 4),
        live = (\<lambda>h. None)(1 \<mapsto> NContext [pid0], 2 \<mapsto> NObject pid0 ''key'',
                 3 \<mapsto> NObject parms_id_zero [], 4 \<mapsto> NObject parms_id_zero []),
        released = [],
        calls = [],
        next_handle = 5,
        next_wid = 4\<rparr>"

text \<open>
  The scenario of the spec: the newly constructed plaintext of wrapper 2 after \<open>setZero\<close>.
\<close>

definition W3 :: "nstate world" where
  "W3 = snd (PlainText_setZero spec_lib 2 W2)"

section \<open>Release\<close>

lemma release_unfold:
  "release k w W =
     (case slots W w of Some h \<Rightarrow> set_slot w None (native_delete h W) | None \<Rightarrow> W)"
  by (cases k)
     (simp_all add: ParmsIdType_delete_def Context_delete_def Evaluator_delete_def
        EncryptionParameterQualifiers_delete_def)

lemma slots_set_slot: "slots (set_slot w v W) w' = (if w' = w then v else slots W w')"
  by (simp add: set_slot_def)

lemma slots_native_delete: "slots (native_delete h W) = slots W"
  by (simp add: native_delete_def)

lemma release_slot_None: "slots (release k w W) w = None"
  by (cases "slots W w") (simp_all add: release_unfold slots_set_slot)

text \<open>
  C4. For every wrapper kind that has a \<open>delete\<close> method, releasing twice in succession is
  the same as releasing once: the second call changes nothing (no slot, no native object,
  no further destructor call), and the wrapper's instance is \<open>null\<close> after the first call
  and after the second. \<open>release\<close> is a total function of the world: it has no failing
  branch.
\<close>

theorem release_idempotent:
  "slots (release k w W) w = None
   \<and> release k w (release k w W) = release k w W
   \<and> slots (release k w (release k w W)) w = None"
proof -
  have a: "slots (release k w W) w = None"
    by (rule release_slot_None)
  have b: "release k w (release k w W) = release k w W"
    using a by (simp add: release_unfold [of k w "release k w W"])
  show ?thesis using a b by simp
qed

lemma release_destructor_calls:
  "released (release k w W) =
     (case slots W w of Some h \<Rightarrow> released W @ [h] | None \<Rightarrow> released W)"
  by (cases "slots W w") (simp_all add: release_unfold set_slot_def native_delete_def)

section \<open>The error normalizer\<close>

lemma safe_is_Error: "is_Error (safe lib e)"
  by (cases e) (simp_all add: safe_def new_Error_def)

lemma safe_other:
  "\<not> is_number e \<Longrightarrow> \<not> is_Error e \<Longrightarrow> truthy e \<Longrightarrow> safe lib e = JError ''Error'' (to_string e)"
  by (cases e) (simp_all add: safe_def new_Error_def)

lemma safe_body_Plain: "safe_body lib (Plain e) = Inr (safe lib e)"
  by (simp add: safe_body_def safe_def)

text \<open>
  C5, as stated, fails. \<open>Exception.safe\<close> throws a \<open>TypeError\<close> when \<open>error\<close> is a
  \<open>Symbol\<close>, when it is an object that cannot be converted to a string, and when the
  method is called without an argument.
\<close>

theorem safe_throws_counterexample:
  "Exception_safe lib0 (Options SymbolValue)
     = Inl (JError ''TypeError'' ''Cannot convert a Symbol value to a string'')
   \<and> Exception_safe lib0 (Options NoPrimitive)
     = Inl (JError ''TypeError'' ''Cannot convert object to primitive value'')
   \<and> Exception_safe lib0 (Positional JUndefined)
     = Inl (JError ''TypeError'' ''Cannot destructure property error'')"
  by (simp add: Exception_safe_def safe_body_def symbol_TypeError_def primitive_TypeError_def
      destructure_TypeError_def)

text \<open>
  C5, amended. Called with an options object whose \<open>error\<close> is a number, an \<open>Error\<close>, a
  string, a boolean, \<open>null\<close>, \<open>undefined\<close> or an object that converts to a string,
  \<open>Exception.safe\<close> does not throw and returns an \<open>Error\<close>: a number is looked up with
  the native \<open>getException\<close>; an \<open>Error\<close> comes back as it is; any other truthy value
  becomes an \<open>Error\<close> whose message is the value as a string; and \<open>undefined\<close>, \<open>null\<close>
  and the empty string give the \<open>Error\<close> with the message \<open>Unknown Error!\<close>. It throws a
  \<open>TypeError\<close> for a \<open>Symbol\<close>, for an object without a conversion to a string, and
  without an argument.
\<close>

theorem Exception_safe_cases:
  "Exception_safe lib (Options (Plain e)) = Inr (safe lib e)
   \<and> is_Error (safe lib e)
   \<and> safe lib (JNum n) = JError ''Error'' (getException lib (JNum n))
   \<and> safe lib (JError name msg) = JError name msg
   \<and> (\<not> is_number e \<and> \<not> is_Error e \<and> truthy e \<longrightarrow> safe lib e = JError ''Error'' (to_string e))
   \<and> safe lib JUndefined = JError ''Error'' ''Unknown Error!''
   \<and> safe lib JNull = JError ''Error'' ''Unknown Error!''
   \<and> safe lib (JStr []) = JError ''Error'' ''Unknown Error!''
   \<and> Exception_safe lib (Options SymbolValue) = Inl symbol_TypeError
   \<and> Exception_safe lib (Options NoPrimitive) = Inl primitive_TypeError
   \<and> Exception_safe lib (Positional JUndefined) = Inl destructure_TypeError"
proof -
  have a: "Exception_safe lib (Options (Plain e)) = Inr (safe lib e)"
    by (simp add: Exception_safe_def safe_body_Plain)
  have b: "Exception_safe lib (Options SymbolValue) = Inl symbol_TypeError
      \<and> Exception_safe lib (Options NoPrimitive) = Inl primitive_TypeError
      \<and> Exception_safe lib (Positional JUndefined) = Inl destructure_TypeError"
    by (simp add: Exception_safe_def safe_body_def)
  have c: "safe lib (JNum n) = JError ''Error'' (getException lib (JNum n))
      \<and> safe lib (JError name msg) = JError name msg
      \<and> safe lib JUndefined = JError ''Error'' ''Unknown Error!''
      \<and> safe lib JNull = JError ''Error'' ''Unknown Error!''
      \<and> safe lib (JStr []) = JError ''Error'' ''Unknown Error!''"
    by (simp add: safe_def new_Error_def getHuman_def)
  show ?thesis
    using a b c safe_is_Error [of lib e] safe_other [of e lib] by blast
qed

theorem Exception_safe_cases_witness:
  "truthy (JStr ''bad key'')
   \<and> Exception_safe lib0 (Options (Plain (JStr ''bad key''))) = Inr (JError ''Error'' ''bad key'')
   \<and> Exception_safe lib0 (Options (Plain (JNum 5))) = Inr (JError ''Error'' ''msg: 5'')"
proof -
  have five: "show_int 5 = ''5''"
    by (simp add: show_int_def digit_char_def)
  show ?thesis
    using Exception_safe_cases [of lib0 "JStr ''bad key''" 5]
      Exception_safe_cases [of lib0 "JNum 5" 5]
    by (simp add: lib0_def five)
qed

section \<open>Inject\<close>

lemma inject_unfold:
  "k \<noteq> PublicKey \<Longrightarrow>
   inject k w inst W =
     set_slot w inst
       (case slots W w of Some h \<Rightarrow> set_slot w None (native_delete h W) | None \<Rightarrow> W)"
  by (cases k)
     (simp_all add: RelinKeys_inject_def PlainText_inject_def Context_unsafeInject_def
        Evaluator_inject_def EncryptionParameterQualifiers_inject_def)

lemma inject_slot: "slots (inject k w inst W) w' = (if w' = w then inst else slots W w')"
proof (cases "k = PublicKey")
  case True
  then show ?thesis
    by (cases "slots W w") (simp_all add: PublicKey_inject_def slots_set_slot)
next
  case False
  then show ?thesis
    by (cases "slots W w") (simp_all add: inject_unfold slots_set_slot slots_native_delete)
qed

text \<open>
  Every kind but \<open>PublicKey\<close>: \<open>inject\<close> calls the destructor once, on the handle that was
  held, and on nothing when none was held; then the slot holds the new instance.
\<close>

lemma inject_releases_once:
  "k \<noteq> PublicKey \<Longrightarrow>
   released (inject k w inst W) =
     (case slots W w of Some h \<Rightarrow> released W @ [h] | None \<Rightarrow> released W)"
  by (cases "slots W w") (simp_all add: inject_unfold set_slot_def native_delete_def)

lemma inject_frees_old:
  "k \<noteq> PublicKey \<Longrightarrow> slots W w = Some h \<Longrightarrow> live (inject k w inst W) h = None"
  by (simp add: inject_unfold set_slot_def native_delete_def)

text \<open>
  \<open>ParmsIdType.inject\<close> releases the held instance once as well; it then holds a copy of
  the given instance, at a new handle, and has deleted the given instance.
\<close>

lemma ParmsIdType_inject_copies:
  "fst (ParmsIdType_inject lib0 0 (Some 3) W0) = Inr ()
   \<and> released (snd (ParmsIdType_inject lib0 0 (Some 3) W0)) = [1, 3]
   \<and> slots (snd (ParmsIdType_inject lib0 0 (Some 3) W0)) 0 = Some 4
   \<and> live (snd (ParmsIdType_inject lib0 0 (Some 3) W0)) 4 = Some 0"
  by (simp add: ParmsIdType_inject_def lib0_def W0_def set_slot_def native_delete_def alloc_def)

text \<open>
  C1. \<open>PublicKey.inject\<close> does not release the handle it holds. In the example world wrapper
  0 holds handle 1; injecting the unowned handle 3 calls no destructor, leaves the native
  object 1 alive, and no wrapper holds it any more: the object has leaked. The same call
  on a \<open>RelinKeys\<close> wrapper releases handle 1 exactly once.
\<close>

theorem PublicKey_inject_leaks:
  "released (inject PublicKey 0 (Some 3) W0) = []
   \<and> live (inject PublicKey 0 (Some 3) W0) 1 = Some 10
   \<and> slots (inject PublicKey 0 (Some 3) W0) 0 = Some 3
   \<and> slots (inject PublicKey 0 (Some 3) W0) 1 = Some 2
   \<and> released (inject RelinKeys 0 (Some 3) W0) = [1]
   \<and> live (inject RelinKeys 0 (Some 3) W0) 1 = None"
  by (simp add: PublicKey_inject_def RelinKeys_inject_def set_slot_def native_delete_def W0_def)

section \<open>Exclusive ownership\<close>

text \<open>
  C6, as stated, fails. In the example world the two wrappers hold different handles;
  after \<open>newItem.inject(item.instance)\<close>, as in the test of \<open>inject\<close>, wrappers 0 and 1
  both hold handle 1, and they keep holding it after the call has returned.
\<close>

theorem inject_aliasing_counterexample:
  "exclusive W0 \<and> \<not> exclusive (inject RelinKeys 1 (slots W0 0) W0)"
  by (simp add: exclusive_def held_def W0_def RelinKeys_inject_def set_slot_def
      native_delete_def List.map_filter_def upt_rec)

lemma set_map_filter: "set (List.map_filter f xs) = {v. \<exists>x\<in>set xs. f x = Some v}"
  by (induction xs) (auto split: option.splits)

lemma distinct_map_filter:
  "distinct xs \<Longrightarrow>
   distinct (List.map_filter f xs)
     = (\<forall>x y v. x \<in> set xs \<and> y \<in> set xs \<and> f x = Some v \<and> f y = Some v \<longrightarrow> x = y)"
proof (induction xs)
  case Nil
  then show ?case by simp
next
  case (Cons a xs)
  then have IH: "distinct (List.map_filter f xs)
     = (\<forall>x y v. x \<in> set xs \<and> y \<in> set xs \<and> f x = Some v \<and> f y = Some v \<longrightarrow> x = y)"
    and a: "a \<notin> set xs"
    by simp_all
  show ?case
  proof (cases "f a")
    case None
    have "distinct (List.map_filter f (a # xs)) = distinct (List.map_filter f xs)"
      using None by simp
    also have "\<dots> = (\<forall>x y v. x \<in> set (a # xs) \<and> y \<in> set (a # xs) \<and> f x = Some v \<and> f y = Some v
        \<longrightarrow> x = y)"
      unfolding IH using None by auto
    finally show ?thesis .
  next
    case (Some u)
    have "distinct (List.map_filter f (a # xs))
        = ((\<forall>x\<in>set xs. f x \<noteq> Some u) \<and> distinct (List.map_filter f xs))"
      using Some by (auto simp add: set_map_filter)
    also have "\<dots> = (\<forall>x y v. x \<in> set (a # xs) \<and> y \<in> set (a # xs) \<and> f x = Some v \<and> f y = Some v
        \<longrightarrow> x = y)"
      unfolding IH using Some a by auto
    finally show ?thesis .
  qed
qed

lemma exclusive_iff:
  "exclusive W =
     (\<forall>x y v. x < next_wid W \<and> y < next_wid W \<and> slots W x = Some v \<and> slots W y = Some v
        \<longrightarrow> x = y)"
  by (simp add: exclusive_def held_def distinct_map_filter)

lemma held_iff: "h \<in> set (held W) = (\<exists>x<next_wid W. slots W x = Some h)"
  by (auto simp add: held_def set_map_filter)

text \<open>
  \<open>ParmsIdType.inject\<close> leaves in the slot nothing or the handle of the copy it has made,
  and leaves every other slot as it was.
\<close>

lemma ParmsIdType_inject_slots:
  "next_wid (snd (ParmsIdType_inject lib w inst W)) = next_wid W
   \<and> (slots (snd (ParmsIdType_inject lib w inst W)) w = None
      \<or> slots (snd (ParmsIdType_inject lib w inst W)) w = Some (next_handle W))
   \<and> (\<forall>w'. w' \<noteq> w \<longrightarrow> slots (snd (ParmsIdType_inject lib w inst W)) w' = slots W w')"
  by (cases "slots W w"; cases inst)
     (auto simp add: ParmsIdType_inject_def alloc_def set_slot_def native_delete_def Let_def
        split: sum.splits)

lemma next_wid_inject: "next_wid (inject k w inst W) = next_wid W"
proof (cases "k = PublicKey")
  case True
  then show ?thesis
    by (cases "slots W w") (simp_all add: PublicKey_inject_def set_slot_def)
next
  case False
  then show ?thesis
    by (cases "slots W w") (simp_all add: inject_unfold set_slot_def native_delete_def)
qed

lemma release_slots: "slots (release r w W) w' = (if w' = w then None else slots W w')"
  by (cases "slots W w") (auto simp add: release_unfold slots_set_slot slots_native_delete)

lemma next_wid_release: "next_wid (release r w W) = next_wid W"
  by (cases "slots W w") (simp_all add: release_unfold set_slot_def native_delete_def)

lemma exclusive_release: "exclusive W \<Longrightarrow> exclusive (release r w W)"
  unfolding exclusive_iff next_wid_release release_slots by (auto split: if_splits)

lemma exclusive_inject_None: "exclusive W \<Longrightarrow> exclusive (inject k w None W)"
  unfolding exclusive_iff next_wid_inject inject_slot by (auto split: if_splits)

lemma exclusive_inject_unowned:
  "exclusive W \<Longrightarrow> h \<notin> set (held W) \<Longrightarrow> exclusive (inject k w (Some h) W)"
  unfolding exclusive_iff next_wid_inject inject_slot held_iff by (auto split: if_splits)

lemma exclusive_ParmsIdType_inject:
  assumes e: "exclusive W" and fr: "\<forall>g\<in>set (held W). g < next_handle W"
  shows "exclusive (snd (ParmsIdType_inject lib w inst W))"
proof -
  let ?W' = "snd (ParmsIdType_inject lib w inst W)"
  note s = ParmsIdType_inject_slots [of lib w inst W]
  have fresh: "slots W x \<noteq> Some (next_handle W)" if "x < next_wid W" for x
    using fr that by (auto simp add: held_iff)
  have other: "slots ?W' x = slots W x" if "x \<noteq> w" for x
    using s that by blast
  have own: "slots ?W' w = None \<or> slots ?W' w = Some (next_handle W)"
    using s by blast
  have n: "next_wid ?W' = next_wid W"
    using s by blast
  show ?thesis
    unfolding exclusive_iff n
  proof (intro allI impI)
    fix x y v
    assume a: "x < next_wid W \<and> y < next_wid W \<and> slots ?W' x = Some v \<and> slots ?W' y = Some v"
    show "x = y"
    proof (cases "x = w")
      case True
      then have v: "v = next_handle W"
        using a own by auto
      show ?thesis
      proof (rule ccontr)
        assume "x \<noteq> y"
        then have "slots W y = Some (next_handle W)"
          using a other [of y] True v by auto
        then show False
          using fresh a by blast
      qed
    next
      case False
      then have sx: "slots W x = Some v"
        using a other [of x] by auto
      show ?thesis
      proof (cases "y = w")
        case True
        then have "v = next_handle W"
          using a own by auto
        then show ?thesis
          using sx fresh a by blast
      next
        case False
        then have "slots W y = Some v"
          using a other [of y] by auto
        then show ?thesis
          using sx e a unfolding exclusive_iff by blast
      qed
    qed
  qed
qed

lemma inject_keeps_source:
  "w \<noteq> w' \<Longrightarrow>
   slots (inject k w (slots W w') W) w = slots W w'
   \<and> slots (inject k w (slots W w') W) w' = slots W w'"
  by (simp add: inject_slot)

text \<open>
  C6, amended. A wrapper has one slot, so it holds at most one handle at any instant.
  No handle comes to be held by two wrappers through \<open>delete\<close>, through \<open>inject\<close> of
  \<open>null\<close> or of a handle that no wrapper holds, or through \<open>ParmsIdType.inject\<close>, which
  stores a copy at a new handle. \<open>inject\<close> of the other kinds, given the instance of
  another wrapper, writes the slot of the target only: the target holds the handle and
  the other wrapper still holds it too, after the call as well as during it.
\<close>

theorem exclusive_ownership:
  "(exclusive W \<longrightarrow> exclusive (release r w W) \<and> exclusive (inject k w None W))
   \<and> (exclusive W \<and> h \<notin> set (held W) \<longrightarrow> exclusive (inject k w (Some h) W))
   \<and> (exclusive W \<and> (\<forall>g\<in>set (held W). g < next_handle W)
        \<longrightarrow> exclusive (snd (ParmsIdType_inject lib w inst W)))
   \<and> (w \<noteq> w' \<longrightarrow> slots (inject k w (slots W w') W) w = slots W w'
        \<and> slots (inject k w (slots W w') W) w' = slots W w')"
  using exclusive_release [of W r w] exclusive_inject_None [of W k w]
    exclusive_inject_unowned [of W h k w] exclusive_ParmsIdType_inject [of W lib w inst]
    inject_keeps_source [of w w' k W]
  by blast

theorem exclusive_ownership_witness:
  "exclusive W0
   \<and> held W0 = [1, 2]
   \<and> next_handle W0 = 4
   \<and> exclusive (release RContext 0 W0)
   \<and> exclusive (inject RelinKeys 1 (Some 3) W0)
   \<and> exclusive (snd (ParmsIdType_inject lib0 1 (slots W0 0) W0))
   \<and> slots (inject RelinKeys 1 (slots W0 0) W0) 1 = Some 1
   \<and> slots (inject RelinKeys 1 (slots W0 0) W0) 0 = Some 1"
proof -
  have h: "held W0 = [1, 2]"
    by (simp add: held_def W0_def List.map_filter_def upt_rec)
  have e: "exclusive W0"
    by (simp add: exclusive_def h)
  have u: "3 \<notin> set (held W0)" "\<forall>g\<in>set (held W0). g < next_handle W0"
    by (simp_all add: h) (simp add: W0_def)
  have ne: "(1::nat) \<noteq> 0" by simp
  have s: "slots W0 0 = Some 1" by (simp add: W0_def)
  have n: "next_handle W0 = 4" by (simp add: W0_def)
  show ?thesis
    using e u ne h n
      exclusive_ownership [of W0 RContext 0 RelinKeys 3 lib0 "slots W0 0" 1]
      exclusive_ownership [of W0 RContext 1 RelinKeys 3 lib0 "slots W0 0" 0]
    by (simp add: s)
qed

section \<open>Operations on a released wrapper\<close>



lemma catch_with_Inl: "catch_with f (Inl e, W) = (Inl (f e), W)"
  by (simp add: catch_with_def)



lemma then_return_catch_with:
  "then_return v (catch_with f (then_return u rW)) = catch_with f (then_return v rW)"
  by (simp add: then_return_def catch_with_def split: sum.splits)

lemma with_temp_Inl: "with_temp (Inl e, W) body = (Inl e, W)"
  by (simp add: with_temp_def)

lemma with_temp_Inr: "with_temp (Inr t, W) body = body t W"
  by (simp add: with_temp_def)







section \<open>Where native errors are normalized\<close>

lemma fst_method_call_Some:
  "fst (method_call lib (Some h) m args W) = fst (invoke lib m h args (live W))"
  by (simp add: method_call_def native_call_def split: prod.splits)

lemma fst_catch_with:
  "fst (catch_with f rW) = (case fst rW of Inl e \<Rightarrow> Inl (f e) | Inr v \<Rightarrow> Inr v)"
  by (simp add: catch_with_def split: sum.splits)

lemma fst_then_return:
  "fst (then_return v rW) = (case fst rW of Inl e \<Rightarrow> Inl e | Inr r \<Rightarrow> Inr v)"
  by (simp add: then_return_def split: sum.splits)

text \<open>
  C9, as stated, fails. The getter \<open>Context.parametersSet\<close> has no handler: when the native
  call throws the exception pointer 5, the caller sees the number 5 and not the error
  that \<open>Exception.safe\<close> makes of it.
\<close>

theorem raw_signal_counterexample:
  "fst (Context_parametersSet lib5 0 W0) = Inl (JNum 5)
   \<and> safe lib5 (JNum 5) = JError ''Error'' ''exception 5''"
  by (simp add: Context_parametersSet_def method_call_def native_call_def lib5_def W0_def
      safe_def new_Error_def getHuman_def show_int_def digit_char_def)

text \<open>
  C9, amended. Where a method has a handler that calls \<open>Exception.safe\<close>
  (\<open>EncryptionParameterQualifiers.parametersSet\<close>, and \<open>negate\<close> and \<open>add\<close> of the first
  \<open>Evaluator\<close> with the \<open>safe\<close> they were given), the caller sees \<open>safe\<close> applied once to
  what the native call threw. The getters of \<open>Context\<close> have no handler, and the caller
  sees what the native call threw.
\<close>

theorem handled_sites_normalize_once:
  "slots W w = Some h \<Longrightarrow>
   (invoke lib ''parametersSet'' h [] (live W) = (Inl e, H)
      \<longrightarrow> fst (EncryptionParameterQualifiers_parametersSet lib w W) = Inl (safe lib e)
        \<and> fst (Context_parametersSet lib w W) = Inl e)
   \<and> (invoke lib ''usingKeyswitching'' h [] (live W) = (Inl e, H)
      \<longrightarrow> fst (Context_usingKeyswitching lib w W) = Inl e)
   \<and> (invoke lib ''negate'' h [instance_val (slots W a), instance_val (slots W d)] (live W)
        = (Inl e, H)
      \<longrightarrow> fst (Evaluator_negate lib exc_safe w a (Some d) W) = Inl (exc_safe e))
   \<and> (invoke lib ''add'' h
          [instance_val (slots W a), instance_val (slots W b), instance_val (slots W d)] (live W)
        = (Inl e, H)
      \<longrightarrow> fst (Evaluator_add lib exc_safe w a b (Some d) W) = Inl (exc_safe e))"
  by (simp add: EncryptionParameterQualifiers_parametersSet_def Context_parametersSet_def
      Context_usingKeyswitching_def Evaluator_negate_def Evaluator_add_def
      fst_method_call_Some fst_catch_with fst_then_return)

theorem handled_sites_normalize_once_witness:
  "slots W1 2 = Some 3
   \<and> invoke lib5 ''parametersSet'' 3 [] (live W1) = (Inl (JNum 5), live W1)
   \<and> fst (EncryptionParameterQualifiers_parametersSet lib5 2 W1)
       = Inl (JError ''Error'' ''exception 5'')
   \<and> fst (Context_parametersSet lib5 2 W1) = Inl (JNum 5)
   \<and> fst (Evaluator_negate lib5 (safe lib5) 2 0 (Some 1) W1)
       = Inl (JError ''Error'' ''exception 5'')"
proof -
  have s: "slots W1 2 = Some 3" by (simp add: W1_def)
  have five: "safe lib5 (JNum 5) = JError ''Error'' ''exception 5''"
    by (simp add: safe_def new_Error_def getHuman_def lib5_def show_int_def digit_char_def)
  have i: "\<And>m args. invoke lib5 m 3 args (live W1) = (Inl (JNum 5), live W1)"
    by (simp add: lib5_def)
  show ?thesis
    using handled_sites_normalize_once [OF s, of lib5 "JNum 5" "live W1" 0 1 "safe lib5"]
    by (simp add: s i five)
qed

text \<open>
  \<open>negate\<close> of the second \<open>Evaluator\<close> builds its error in place: it looks the message up
  at \<open>undefined\<close>, not at the number thrown, and it wraps the message of an \<open>Error\<close> in a
  new \<open>Error\<close>.
\<close>

lemma Evaluator_negate_options_lookup:
  "fst (Evaluator_negate_options lib5 2 0 1 W1) = Inl (JError ''Error'' ''exception undefined'')"
  by (simp add: Evaluator_negate_options_def inline_Error_def catch_with_def then_return_def
      method_call_def native_call_def lib5_def W1_def new_Error_def getHuman_def)

section \<open>Evaluator methods without a destination\<close>

lemma into_fresh_Inl: "into_fresh (Inl e, W) op f = (Inl (f e), W)"
  by (simp add: into_fresh_def)

lemma into_fresh_Inr: "into_fresh (Inr t, W) op f = then_return (JWrapper t) (op (Some t) W)"
  by (simp add: into_fresh_def)

lemmas fresh_simps =
  with_temp_Inl with_temp_Inr into_fresh_Inl into_fresh_Inr catch_with_Inl then_return_catch_with

text \<open>
  \<open>negate\<close>, \<open>add\<close>, \<open>sub\<close>, \<open>subPlain\<close>, \<open>plainModSwitchToNext\<close> and \<open>cipherTransformToNtt\<close>
  do what is documented: without a destination they run the form with a destination on
  a fresh wrapper and return it.
\<close>

lemma Evaluator_negate_fresh:
  "Evaluator_negate lib exc_safe ev encrypted None W =
     into_fresh (CipherText_new lib W) (Evaluator_negate lib exc_safe ev encrypted) exc_safe"
proof (cases "CipherText_new lib W")
  case (Pair r W')
  then show ?thesis
    by (cases r) (simp_all add: Evaluator_negate_def fresh_simps)
qed

lemma Evaluator_add_fresh:
  "Evaluator_add lib exc_safe ev a b None W =
     into_fresh (CipherText_new lib W) (Evaluator_add lib exc_safe ev a b) exc_safe"
proof (cases "CipherText_new lib W")
  case (Pair r W')
  then show ?thesis
    by (cases r) (simp_all add: Evaluator_add_def fresh_simps)
qed

lemma Evaluator_sub_fresh:
  "Evaluator_sub lib exc_safe ev a b None W =
     into_fresh (CipherText_new lib W) (Evaluator_sub lib exc_safe ev a b) exc_safe"
proof (cases "CipherText_new lib W")
  case (Pair r W')
  then show ?thesis
    by (cases r) (simp_all add: Evaluator_sub_def fresh_simps)
qed

lemma Evaluator_subPlain_fresh:
  "Evaluator_subPlain lib exc_safe ev encrypted plain None W =
     into_fresh (CipherText_new lib W) (Evaluator_subPlain lib exc_safe ev encrypted plain)
       exc_safe"
proof (cases "CipherText_new lib W")
  case (Pair r W')
  then show ?thesis
    by (cases r) (simp_all add: Evaluator_subPlain_def fresh_simps)
qed

lemma Evaluator_plainModSwitchToNext_fresh:
  "Evaluator_plainModSwitchToNext lib exc_safe ev plain None W =
     into_fresh (PlainText_new lib W) (Evaluator_plainModSwitchToNext lib exc_safe ev plain)
       exc_safe"
proof (cases "PlainText_new lib W")
  case (Pair r W')
  then show ?thesis
    by (cases r) (simp_all add: Evaluator_plainModSwitchToNext_def fresh_simps)
qed

lemma Evaluator_cipherTransformToNtt_fresh:
  "Evaluator_cipherTransformToNtt lib exc_safe ev encrypted None W =
     into_fresh (CipherText_new lib W) (Evaluator_cipherTransformToNtt lib exc_safe ev encrypted)
       exc_safe"
proof (cases "CipherText_new lib W")
  case (Pair r W')
  then show ?thesis
    by (cases r) (simp_all add: Evaluator_cipherTransformToNtt_def fresh_simps)
qed

text \<open>
  C10. Two methods do not. In the example world the evaluator is wrapper 2 (handle 3) and
  the operands are wrappers 0 and 1. \<open>addPlain\<close> without a destination allocates the
  wrapper, calls no native method and throws the \<open>TypeError\<close> of reading
  \<open>destination.instance\<close>, where the form with a destination calls \<open>addPlain\<close>.
  \<open>cipherTransformFromNtt\<close> without a destination returns the new wrapper 3 after the
  native call \<open>cipherTransformToNtt\<close>, where the form with a destination calls
  \<open>cipherTransformFromNtt\<close>.
\<close>

theorem Evaluator_no_destination_diverges:
  "fst (Evaluator_addPlain lib0 (safe lib0) 2 0 1 None W1) = Inl undefined_TypeError
   \<and> calls (snd (Evaluator_addPlain lib0 (safe lib0) 2 0 1 None W1)) = []
   \<and> fst (Evaluator_addPlain lib0 (safe lib0) 2 0 1 (Some 1) W1) = Inr JUndefined
   \<and> calls (snd (Evaluator_addPlain lib0 (safe lib0) 2 0 1 (Some 1) W1))
       = [NCall 3 ''addPlain'' [JInstance 1, JInstance 2, JInstance 2]]
   \<and> fst (Evaluator_cipherTransformFromNtt lib0 (safe lib0) 2 0 None W1) = Inr (JWrapper 3)
   \<and> calls (snd (Evaluator_cipherTransformFromNtt lib0 (safe lib0) 2 0 None W1))
       = [NCall 3 ''cipherTransformToNtt'' [JInstance 1, JInstance 4]]
   \<and> calls (snd (Evaluator_cipherTransformFromNtt lib0 (safe lib0) 2 0 (Some 1) W1))
       = [NCall 3 ''cipherTransformFromNtt'' [JInstance 1, JInstance 2]]"
  by (simp add: Evaluator_addPlain_def Evaluator_cipherTransformFromNtt_def
      catch_with_def then_return_def with_temp_def CipherText_new_def new_wrapper_def alloc_def
      set_slot_def method_call_def native_call_def lib0_def W1_def safe_def
      undefined_TypeError_def)

section \<open>The codec: saving and loading\<close>














section \<open>Move\<close>

lemma live_inject:
  "live (inject k w inst W) h =
     (if k \<noteq> PublicKey \<and> slots W w = Some h then None else live W h)"
proof (cases "k = PublicKey")
  case True
  then show ?thesis
    by (cases "slots W w") (simp_all add: PublicKey_inject_def set_slot_def)
next
  case False
  then show ?thesis
    by (cases "slots W w") (simp_all add: inject_unfold set_slot_def native_delete_def)
qed

lemma move_unfold:
  "slots W src = Some h \<Longrightarrow>
   move k dst src W = (Inr JUndefined, inject k dst (Some h) (set_slot src None W))"
  by (simp add: move_def take_handle_def)

lemma fst_save_Some:
  "slots W w = Some h \<Longrightarrow>
   fst (RelinKeys_save lib w c W) =
     fst (invoke lib ''saveToString'' h
            [if c = JUndefined then ComprModeType_deflate else c] (live W))"
  by (simp add: RelinKeys_save_def fst_method_call_Some)

text \<open>
  C7. For every wrapper kind, when \<open>src\<close> holds a handle that \<open>dst\<close>, another wrapper, does
  not hold, \<open>move(dst, src)\<close> succeeds, leaves the instance of \<open>src\<close> absent and gives the
  handle, with its native state, to \<open>dst\<close>; when the native \<open>saveToString\<close> reads
  nothing but its receiver, \<open>dst\<close> then saves to what \<open>src\<close> saved to before the move. When
  \<open>src\<close> holds no handle, \<open>move\<close> fails with \<open>InvalidStateError\<close> and changes nothing.
\<close>

theorem move_transfers:
  "(dst \<noteq> src \<and> slots W src = Some h \<and> slots W dst \<noteq> Some h
      \<and> reads_receiver lib ''saveToString''
     \<longrightarrow> fst (move k dst src W) = Inr JUndefined
       \<and> slots (snd (move k dst src W)) src = None
       \<and> slots (snd (move k dst src W)) dst = Some h
       \<and> live (snd (move k dst src W)) h = live W h
       \<and> fst (RelinKeys_save lib dst compression (snd (move k dst src W)))
           = fst (RelinKeys_save lib src compression W))
   \<and> (slots W src = None
     \<longrightarrow> move k dst src W = (Inl InvalidStateError, W)
       \<and> fails_with ''InvalidStateError'' (fst (move k dst src W)))"
proof -
  have fail: "slots W src = None \<longrightarrow> move k dst src W = (Inl InvalidStateError, W)
       \<and> fails_with ''InvalidStateError'' (fst (move k dst src W))"
    by (simp add: move_def fails_with_def InvalidStateError_def)
  have ok: "fst (move k dst src W) = Inr JUndefined
       \<and> slots (snd (move k dst src W)) src = None
       \<and> slots (snd (move k dst src W)) dst = Some h
       \<and> live (snd (move k dst src W)) h = live W h
       \<and> fst (RelinKeys_save lib dst compression (snd (move k dst src W)))
           = fst (RelinKeys_save lib src compression W)"
    if a: "dst \<noteq> src" "slots W src = Some h" "slots W dst \<noteq> Some h"
      "reads_receiver lib ''saveToString''"
  proof -
    let ?W' = "inject k dst (Some h) (set_slot src None W)"
    have m: "move k dst src W = (Inr JUndefined, ?W')"
      using a(2) by (rule move_unfold)
    have s1: "slots ?W' src = None" "slots ?W' dst = Some h"
      using a(1) by (simp_all add: inject_slot slots_set_slot)
    have l: "live ?W' h = live W h"
      using a(1) a(3) by (simp add: live_inject slots_set_slot) (simp add: set_slot_def)
    have sv: "fst (RelinKeys_save lib dst compression ?W')
        = fst (RelinKeys_save lib src compression W)"
    proof -
      have "fst (invoke lib ''saveToString'' h
            [if compression = JUndefined then ComprModeType_deflate else compression] (live ?W'))
          = fst (invoke lib ''saveToString'' h
            [if compression = JUndefined then ComprModeType_deflate else compression] (live W))"
        using a(4) l unfolding reads_receiver_def by blast
      then show ?thesis
        by (simp only: fst_save_Some [OF s1(2)] fst_save_Some [OF a(2)])
    qed
    show ?thesis using m s1 l sv by simp
  qed
  show ?thesis using fail ok by blast
qed


lemma reads_receiver_spec_lib: "reads_receiver spec_lib ''saveToString''"
  by (simp add: reads_receiver_def spec_lib_def spec_invoke_def)

theorem move_transfers_witness:
  "fst (move RelinKeys 2 1 W2) = Inr JUndefined
   \<and> slots (snd (move RelinKeys 2 1 W2)) 1 = None
   \<and> slots (snd (move RelinKeys 2 1 W2)) 2 = Some 2
   \<and> fst (RelinKeys_save spec_lib 2 JUndefined (snd (move RelinKeys 2 1 W2)))
       = fst (RelinKeys_save spec_lib 1 JUndefined W2)
   \<and> fails_with ''InvalidStateError'' (fst (move RelinKeys 2 5 W2))"
proof -
  have a: "(2::nat) \<noteq> 1" "slots W2 1 = Some 2" "slots W2 2 \<noteq> Some 2" "slots W2 5 = None"
    by (simp_all add: W2_def)
  show ?thesis
    using a reads_receiver_spec_lib
      move_transfers [of 2 1 W2 2 spec_lib RelinKeys JUndefined]
      move_transfers [of 2 5 W2 2 spec_lib RelinKeys JUndefined]
    by (simp add: fails_with_def InvalidStateError_def)
qed

text \<open>
  The modelled \<open>move\<close> between two wrappers of the world keeps ownership exclusive.
\<close>

lemma exclusive_move:
  assumes e: "exclusive W" and src: "src < next_wid W"
  shows "exclusive (snd (move k dst src W))"
proof (cases "slots W src")
  case None
  then show ?thesis
    using e by (simp add: move_def)
next
  case (Some h)
  let ?W1 = "set_slot src None W"
  have n: "next_wid ?W1 = next_wid W"
    by (simp add: set_slot_def)
  have e1: "exclusive ?W1"
    using e unfolding exclusive_iff n slots_set_slot by (auto split: if_splits)
  have u: "h \<notin> set (held ?W1)"
    using e Some src unfolding exclusive_iff held_iff n slots_set_slot
    by (auto split: if_splits)
  show ?thesis
    using exclusive_inject_unowned [OF e1 u] by (simp add: move_unfold [OF Some])
qed

section \<open>Loading a malformed encoding\<close>







end
